theory Spec2Isabelle
  imports Main
begin

section \<open>Data model\<close>

text \<open>
  Values as \<^verbatim>\<open>json.loads\<close> and \<^verbatim>\<open>response.json()\<close> hand them to the
  application: \<^verbatim>\<open>None\<close>, booleans, integers, strings, lists and dictionaries
  with string keys. A dictionary is kept as an association list in insertion order, read
  with \<open>map_of\<close>; a Python dictionary has each key once. JSON numbers with a fraction
  or an exponent (Python floats) are left out of the model.
\<close>

datatype pyval =
    PNone
  | PBool bool
  | PInt int
  | PStr string
  | PList "pyval list"
  | PDict "(string \<times> pyval) list"

text \<open>Python truthiness, as \<^verbatim>\<open>if x:\<close>, \<^verbatim>\<open>not x\<close> and \<^verbatim>\<open>x or y\<close> read it.\<close>

fun truthy :: "pyval \<Rightarrow> bool" where
  "truthy PNone = False"
| "truthy (PBool b) = b"
| "truthy (PInt i) = (i \<noteq> 0)"
| "truthy (PStr s) = (s \<noteq> [])"
| "truthy (PList xs) = (xs \<noteq> [])"
| "truthy (PDict kvs) = (kvs \<noteq> [])"

text \<open>
  A transcript entry (\<^verbatim>\<open>session.py\<close>, the dictionary built by \<^verbatim>\<open>add_message\<close>).
  The key \<^verbatim>\<open>"search_query"\<close> is optional: \<open>None\<close> is the key being absent.
\<close>

record message =
  role :: string
  content :: string
  timestamp :: int
  search_query :: "string option"

text \<open>The dictionary of \<^verbatim>\<open>load_config\<close> (\<^verbatim>\<open>config.py\<close>), one field per leaf.\<close>

record config =
  openai_api_key :: string
  openai_default_model :: string
  aws_api_endpoint :: string
  aws_websocket_url :: string
  aws_api_key :: string
  app_debug :: bool

text \<open>
  The fields of a \<^verbatim>\<open>WebSocketClient\<close>: \<open>ws\<close> is the \<^verbatim>\<open>WebSocketApp\<close> (named
  by the URL it was created for) or \<open>None\<close>, \<open>thread\<close> says whether the listener thread
  was started. The two callbacks are passed to the methods below as arguments.
\<close>

record ws_client =
  websocket_url :: string
  ws :: "string option"
  thread :: bool
  is_connected :: bool

text \<open>
  \<^verbatim>\<open>st.session_state\<close>. \<open>websocket_client\<close> is \<open>None\<close> while the key is absent;
  \<open>stamp\<close> is the key \<^verbatim>\<open>"_timestamp"\<close>, which \<^verbatim>\<open>add_message\<close> reads with
  default 0. \<open>conversation_id\<close> and \<open>search_results\<close> hold whatever value the servers
  sent, so they are \<open>pyval\<close>s.
\<close>

record session_state =
  messages :: "message list"
  conversation_id :: pyval
  websocket_connected :: bool
  search_results :: pyval
  openai_model :: string
  config :: config
  websocket_client :: "ws_client option"
  stamp :: "int option"

text \<open>What the user interface and the outside world see of a call, in order.\<close>

datatype effect =
    StError string
  | SidebarWarning string
  | SidebarSuccess string
  | SidebarError string
  | Rerun
  | ThreadStarted string
  | WsClosed string

section \<open>Conversation store (\<^verbatim>\<open>app/utils/session.py\<close>)\<close>

text \<open>The state \<^verbatim>\<open>main\<close> reaches on a first run, before any widget acts.\<close>

definition initialize_session_state :: "config \<Rightarrow> session_state" where
  "initialize_session_state cfg =
     \<lparr>messages = [], conversation_id = PNone, websocket_connected = False,
      search_results = PList [], openai_model = ''gpt-4'', config = cfg,
      websocket_client = None, stamp = None\<rparr>"

definition add_message :: "session_state \<Rightarrow> string \<Rightarrow> string \<Rightarrow> string option \<Rightarrow> session_state" where
  "add_message st r c query =
     (let message = \<lparr>role = r, content = c,
                      timestamp = (case stamp st of None \<Rightarrow> 0 | Some t \<Rightarrow> t),
                      search_query = None\<rparr>;
          message' = (case query of
                        None \<Rightarrow> message
                      | Some q \<Rightarrow> if q \<noteq> [] then message\<lparr>search_query := Some q\<rparr> else message)
      in st\<lparr>messages := messages st @ [message']\<rparr>)"

definition get_messages_for_openai :: "session_state \<Rightarrow> (string \<times> string) list" where
  "get_messages_for_openai st = map (\<lambda>msg. (role msg, content msg)) (messages st)"

definition clear_conversation :: "session_state \<Rightarrow> session_state" where
  "clear_conversation st =
     st\<lparr>messages := [], conversation_id := PNone, search_results := PList []\<rparr>"

text \<open>Appending a batch of messages, one \<^verbatim>\<open>add_message\<close> call each, in order.\<close>

fun add_messages :: "session_state \<Rightarrow> (string \<times> string \<times> string option) list \<Rightarrow> session_state" where
  "add_messages st [] = st"
| "add_messages st ((r, c, q) # rest) = add_messages (add_message st r c q) rest"

section \<open>Python operations the sources use\<close>

text \<open>
  The operators and built-ins the sources apply to received values. A call that raises
  in Python returns \<open>None\<close> here. \<open>str_contains needle hay\<close> is
  \<^verbatim>\<open>needle in hay\<close> on two strings.
\<close>

fun starts_with :: "string \<Rightarrow> string \<Rightarrow> bool" where
  "starts_with [] hay = True"
| "starts_with (n # ns) [] = False"
| "starts_with (n # ns) (h # hs) = (n = h \<and> starts_with ns hs)"

fun str_contains :: "string \<Rightarrow> string \<Rightarrow> bool" where
  "str_contains needle [] = (needle = [])"
| "str_contains needle (h # hs) = (starts_with needle (h # hs) \<or> str_contains needle hs)"

text \<open>
  \<^verbatim>\<open>key in data\<close>: key membership for a dictionary, element membership for a list,
  substring test for a string, \<^verbatim>\<open>TypeError\<close> otherwise.
\<close>

fun py_contains :: "pyval \<Rightarrow> string \<Rightarrow> bool option" where
  "py_contains (PDict kvs) key = Some (map_of kvs key \<noteq> None)"
| "py_contains (PList xs) key = Some (PStr key \<in> set xs)"
| "py_contains (PStr s) key = Some (str_contains key s)"
| "py_contains _ key = None"

text \<open>
  \<^verbatim>\<open>data[key]\<close> with a string key: the value for a dictionary that has the key,
  \<^verbatim>\<open>KeyError\<close> or \<^verbatim>\<open>TypeError\<close> otherwise.
\<close>

fun py_subscript :: "pyval \<Rightarrow> string \<Rightarrow> pyval option" where
  "py_subscript (PDict kvs) key = map_of kvs key"
| "py_subscript _ key = None"

text \<open>\<^verbatim>\<open>data.get(key)\<close>: \<^verbatim>\<open>AttributeError\<close> unless \<open>data\<close> is a dictionary.\<close>

fun py_get :: "pyval \<Rightarrow> string \<Rightarrow> pyval option" where
  "py_get (PDict kvs) key = Some (case map_of kvs key of None \<Rightarrow> PNone | Some v \<Rightarrow> v)"
| "py_get _ key = None"

fun py_len :: "pyval \<Rightarrow> nat option" where
  "py_len (PStr s) = Some (length s)"
| "py_len (PList xs) = Some (length xs)"
| "py_len (PDict kvs) = Some (length kvs)"
| "py_len _ = None"

text \<open>
  The items a \<^verbatim>\<open>for\<close> loop visits: the elements of a list, the keys of a
  dictionary, the one-character strings of a string.
\<close>

fun py_iter :: "pyval \<Rightarrow> pyval list option" where
  "py_iter (PList xs) = Some xs"
| "py_iter (PDict kvs) = Some (map (\<lambda>kv. PStr (fst kv)) kvs)"
| "py_iter (PStr s) = Some (map (\<lambda>c. PStr [c]) s)"
| "py_iter _ = None"

text \<open>Decimal text of a natural number, as an f-string prints a loop index.\<close>

fun str_nat :: "nat \<Rightarrow> string" where
  "str_nat n =
     (if n < 10 then [''0123456789'' ! n]
      else str_nat (n div 10) @ [''0123456789'' ! (n mod 10)])"

declare str_nat.simps [simp del]

text \<open>
  An f-string field \<^verbatim>\<open>{v}\<close>: a string is inserted as it is; for any other value
  the text is Python's \<^verbatim>\<open>str(v)\<close>, which the caller supplies as \<open>str_of\<close>.
\<close>

fun format_value :: "(pyval \<Rightarrow> string) \<Rightarrow> pyval \<Rightarrow> string" where
  "format_value str_of (PStr s) = s"
| "format_value str_of v = str_of v"

text \<open>
  \<^verbatim>\<open>str.lower\<close> and \<^verbatim>\<open>str.strip\<close> on ASCII text, used to evaluate the model on
  ASCII inputs; the functions below take the lowering and stripping functions as
  arguments.
\<close>

definition lower_char :: "char \<Rightarrow> char" where
  "lower_char c =
     (case map_of (zip ''ABCDEFGHIJKLMNOPQRSTUVWXYZ'' ''abcdefghijklmnopqrstuvwxyz'') c of
        Some l \<Rightarrow> l
      | None \<Rightarrow> c)"

definition ascii_lower :: "string \<Rightarrow> string" where
  "ascii_lower s = map lower_char s"

definition ascii_space :: "char \<Rightarrow> bool" where
  "ascii_space c = (c \<in> set [CHR '' '', CHR 0x09, CHR 0x0A, CHR 0x0B, CHR 0x0C, CHR 0x0D,
                               CHR 0x1C, CHR 0x1D, CHR 0x1E, CHR 0x1F])"

definition ascii_strip :: "string \<Rightarrow> string" where
  "ascii_strip s = rev (dropWhile ascii_space (rev (dropWhile ascii_space s)))"

section \<open>Routing heuristic (\<^verbatim>\<open>app/services/openai_service.py\<close>)\<close>

definition search_keywords :: "string list" where
  "search_keywords =
     [''search'', ''find'', ''look up'', ''lookup'', ''search for'',
      ''find information'', ''get information'', ''retrieve'']"

definition should_use_semantic_search :: "(string \<Rightarrow> string) \<Rightarrow> string \<Rightarrow> bool" where
  "should_use_semantic_search lower user_input =
     list_ex (\<lambda>keyword. str_contains keyword (lower user_input)) search_keywords"

section \<open>Search dispatcher (\<^verbatim>\<open>app/services/search_service.py\<close>)\<close>

record search_service =
  api_endpoint :: string
  api_key :: "string option"
  headers :: "(string \<times> string) list"

definition SearchService_init :: "string \<Rightarrow> string option \<Rightarrow> search_service" where
  "SearchService_init endpoint key =
     \<lparr>api_endpoint = endpoint, api_key = key,
      headers = (case key of
                   None \<Rightarrow> []
                 | Some k \<Rightarrow> if k \<noteq> [] then [(''x-api-key'', k)] else [])\<rparr>"

text \<open>The arguments of \<^verbatim>\<open>requests.post\<close>: URL, headers and the JSON payload's two keys.\<close>

record request =
  req_url :: string
  req_headers :: "(string \<times> string) list"
  req_query :: string
  req_conversation_id :: pyval

text \<open>
  What \<^verbatim>\<open>requests.post\<close> does: it raises, or returns a response with a status code
  and a body; the body is the result of \<^verbatim>\<open>response.json()\<close>, \<open>None\<close> when that
  call raises.
\<close>

datatype http_outcome =
    PostRaised string
  | Response int "pyval option"

text \<open>
  The request \<^verbatim>\<open>perform_search\<close> prepares: the stored conversation id when it is
  truthy, \<^verbatim>\<open>"new_conversation"\<close> otherwise
  (\<^verbatim>\<open>st.session_state.conversation_id or "new_conversation"\<close>).
\<close>

definition search_request :: "search_service \<Rightarrow> session_state \<Rightarrow> string \<Rightarrow> request" where
  "search_request self st query =
     \<lparr>req_url = api_endpoint self, req_headers = headers self, req_query = query,
      req_conversation_id = (if truthy (conversation_id st) then conversation_id st
                             else PStr ''new_conversation'')\<rparr>"

text \<open>
  \<^verbatim>\<open>perform_search\<close> returns the boolean, the session state it leaves, and the request
  it passed to \<^verbatim>\<open>requests.post\<close>. Both \<^verbatim>\<open>except\<close> clauses only log.
\<close>

definition perform_search ::
  "(request \<Rightarrow> http_outcome) \<Rightarrow> search_service \<Rightarrow> session_state \<Rightarrow> string
     \<Rightarrow> bool \<times> session_state \<times> request" where
  "perform_search post self st query =
     (let req = search_request self st query
      in case post req of
           PostRaised e \<Rightarrow> (False, st, req)
         | Response status_code body \<Rightarrow>
             if status_code = 202 then
               (if \<not> truthy (conversation_id st) then
                  (case body of
                     None \<Rightarrow> (True, st, req)
                   | Some response_data \<Rightarrow>
                       (case py_get response_data ''conversation_id'' of
                          None \<Rightarrow> (True, st, req)
                        | Some new_conversation_id \<Rightarrow>
                            if truthy new_conversation_id
                            then (True, st\<lparr>conversation_id := new_conversation_id\<rparr>, req)
                            else (True, st, req)))
                else (True, st, req))
             else (False, st, req))"

text \<open>
  A dispatch that fails, in the words of the specification: the call raised, or the
  endpoint answered with a status other than 202.
\<close>

fun dispatch_fails :: "http_outcome \<Rightarrow> bool" where
  "dispatch_fails (PostRaised e) = True"
| "dispatch_fails (Response status_code body) = (status_code \<noteq> 202)"

text \<open>
  A run of dispatches on one session, each with the endpoint behaviour and query of its
  own: the requests sent, in order, and the final state.
\<close>

fun perform_searches ::
  "search_service \<Rightarrow> session_state \<Rightarrow> ((request \<Rightarrow> http_outcome) \<times> string) list
     \<Rightarrow> request list \<times> session_state" where
  "perform_searches self st [] = ([], st)"
| "perform_searches self st ((post, query) # rest) =
     (case perform_search post self st query of
        (accepted, st', req) \<Rightarrow>
          (case perform_searches self st' rest of
             (reqs, st'') \<Rightarrow> (req # reqs, st'')))"

section \<open>Completion client and input processing (\<^verbatim>\<open>app/services/openai_service.py\<close>)\<close>

text \<open>
  The call \<^verbatim>\<open>client.chat.completions.create\<close> gets the model name and the
  (role, content) pairs (its sampling arguments are constants) and either raises or
  returns a response whose \<open>choices\<close> each carry a content that may be \<^verbatim>\<open>None\<close>.
\<close>

record chat_request =
  chat_model :: string
  chat_messages :: "(string \<times> string) list"

datatype api_outcome =
    ApiRaised string
  | ApiResponse "string option list"

text \<open>The message of the \<^verbatim>\<open>AttributeError\<close> raised by \<^verbatim>\<open>.strip()\<close> on \<^verbatim>\<open>None\<close>.\<close>

definition none_has_no_strip :: string where
  "none_has_no_strip =
     [CHR 0x27] @ ''NoneType'' @ [CHR 0x27] @ '' object has no attribute ''
     @ [CHR 0x27] @ ''strip'' @ [CHR 0x27]"

text \<open>
  \<^verbatim>\<open>generate_response\<close> logs and re-raises every exception: \<open>Inl e\<close> is the
  exception with message \<open>e\<close>, \<open>Inr text\<close> the stripped reply.
\<close>

definition generate_response ::
  "(string \<Rightarrow> string) \<Rightarrow> (chat_request \<Rightarrow> api_outcome) \<Rightarrow> (string \<times> string) list \<Rightarrow> string
     \<Rightarrow> string + string" where
  "generate_response strip create msgs model =
     (case create \<lparr>chat_model = model, chat_messages = msgs\<rparr> of
        ApiRaised e \<Rightarrow> Inl e
      | ApiResponse choices \<Rightarrow>
          (case choices of
             [] \<Rightarrow> Inl ''list index out of range''
           | choice # _ \<Rightarrow>
               (case choice of
                  None \<Rightarrow> Inl none_has_no_strip
                | Some text \<Rightarrow> Inr (strip text))))"

text \<open>
  Everything outside the repository that \<^verbatim>\<open>process_user_input\<close> reaches:
  \<^verbatim>\<open>str.lower\<close>, \<^verbatim>\<open>str.strip\<close>, the HTTP endpoint, the \<^verbatim>\<open>OpenAI\<close>
  constructor (\<open>Some e\<close> when it raises) and the completion call.
\<close>

record world =
  str_lower :: "string \<Rightarrow> string"
  str_strip :: "string \<Rightarrow> string"
  http_post :: "request \<Rightarrow> http_outcome"
  openai_init :: "string \<Rightarrow> string option"
  chat_create :: "chat_request \<Rightarrow> api_outcome"

text \<open>\<^verbatim>\<open>process_user_input\<close> returns its reply text and the session state it leaves.\<close>

definition process_user_input ::
  "world \<Rightarrow> search_service \<Rightarrow> session_state \<Rightarrow> string \<Rightarrow> string \<times> session_state" where
  "process_user_input w search_service st user_input =
     (let st1 = add_message st ''user'' user_input None;
          use_search = should_use_semantic_search (str_lower w) user_input
      in if use_search then
           (case perform_search (http_post w) search_service st1 user_input of
              (accepted, st2, req) \<Rightarrow> (''Searching for relevant information...'', st2))
         else
           (case openai_init w (openai_api_key (config st1)) of
              Some e \<Rightarrow> (''Error: '' @ e, st1)
            | None \<Rightarrow>
                (case generate_response (str_strip w) (chat_create w)
                        (get_messages_for_openai st1) (openai_model st1) of
                   Inl e \<Rightarrow> (''Error: '' @ e, st1)
                 | Inr response \<Rightarrow> (response, add_message st1 ''assistant'' response None))))"

section \<open>Chat view (\<^verbatim>\<open>app/components/chat_interface.py\<close>)\<close>

text \<open>
  What \<^verbatim>\<open>display_chat_messages\<close> writes: one chat bubble (speaker, text) per message
  with role user, assistant or system; any other role writes nothing.
\<close>

fun display_chat_messages :: "message list \<Rightarrow> (string \<times> string) list" where
  "display_chat_messages [] = []"
| "display_chat_messages (m # ms) =
     (if role m = ''user'' then (''user'', content m) # display_chat_messages ms
      else if role m = ''assistant'' then (''assistant'', content m) # display_chat_messages ms
      else if role m = ''system'' then (''assistant'', ''System: '' @ content m) # display_chat_messages ms
      else display_chat_messages ms)"

text \<open>
  \<^verbatim>\<open>render_chat_interface\<close> on a run where the chat input holds \<open>user_input\<close>
  (\<open>None\<close>: nothing submitted). The reply of \<^verbatim>\<open>process_user_input\<close> is only
  logged; the run ends by asking for a rerun, which draws the transcript of the state
  returned here.
\<close>

definition render_chat_interface ::
  "world \<Rightarrow> session_state \<Rightarrow> string option \<Rightarrow> session_state \<times> effect list" where
  "render_chat_interface w st user_input =
     (let search_service = SearchService_init (aws_api_endpoint (config st))
                             (Some (aws_api_key (config st)))
      in case user_input of
           None \<Rightarrow> (st, [])
         | Some text \<Rightarrow>
             if text \<noteq> [] then
               (case process_user_input w search_service st text of
                  (response, st') \<Rightarrow> (st', [Rerun]))
             else (st, []))"

section \<open>Realtime channel (\<^verbatim>\<open>app/services/websocket_client.py\<close>)\<close>

text \<open>
  The two callbacks a client is built with. The message callback returns \<open>Some e\<close>
  first when it raises an exception with message \<open>e\<close>; the error callback receives the
  text of the error.
\<close>

type_synonym on_message_cb = "session_state \<Rightarrow> pyval \<Rightarrow> string option \<times> session_state \<times> effect list"
type_synonym on_error_cb = "session_state \<Rightarrow> string \<Rightarrow> session_state \<times> effect list"

text \<open>\<^verbatim>\<open>json.loads\<close> on a frame, and starting the socket application and its thread.\<close>

datatype loads_outcome =
    Parsed pyval
  | JSONDecodeError
  | LoadsRaised string

datatype launch_outcome =
    Launched
  | AppFailed string
  | StartFailed string

definition WebSocketClient_init :: "string \<Rightarrow> ws_client" where
  "WebSocketClient_init url = \<lparr>websocket_url = url, ws = None, thread = False, is_connected = False\<rparr>"

text \<open>Each method returns the client, the session state and the effects it leaves.\<close>

definition WebSocketClient_connect ::
  "(string \<Rightarrow> launch_outcome) \<Rightarrow> on_error_cb \<Rightarrow> ws_client \<Rightarrow> session_state
     \<Rightarrow> ws_client \<times> session_state \<times> effect list" where
  "WebSocketClient_connect launch on_error self st =
     (case launch (websocket_url self) of
        AppFailed e \<Rightarrow> (case on_error st e of (st', fx) \<Rightarrow> (self, st', fx))
      | StartFailed e \<Rightarrow>
          (case on_error st e of
             (st', fx) \<Rightarrow> (self\<lparr>ws := Some (websocket_url self), thread := True\<rparr>, st', fx))
      | Launched \<Rightarrow>
          (self\<lparr>ws := Some (websocket_url self), thread := True\<rparr>, st,
           [ThreadStarted (websocket_url self)]))"

definition WebSocketClient_disconnect :: "ws_client \<Rightarrow> ws_client \<times> effect list" where
  "WebSocketClient_disconnect self =
     (case ws self of
        Some app \<Rightarrow> (self\<lparr>is_connected := False\<rparr>, [WsClosed app])
      | None \<Rightarrow> (self, []))"

definition WebSocketClient_on_message ::
  "(string \<Rightarrow> loads_outcome) \<Rightarrow> on_message_cb \<Rightarrow> on_error_cb \<Rightarrow> ws_client \<Rightarrow> session_state
     \<Rightarrow> string \<Rightarrow> ws_client \<times> session_state \<times> effect list" where
  "WebSocketClient_on_message loads on_message on_error self st message =
     (case loads message of
        Parsed data \<Rightarrow>
          (case on_message st data of
             (None, st', fx) \<Rightarrow> (self, st', fx)
           | (Some e, st', fx) \<Rightarrow>
               (case on_error st' e of (st'', fx') \<Rightarrow> (self, st'', fx @ fx')))
      | JSONDecodeError \<Rightarrow>
          (case on_error st ''Invalid message format'' of (st', fx) \<Rightarrow> (self, st', fx))
      | LoadsRaised e \<Rightarrow>
          (case on_error st e of (st', fx) \<Rightarrow> (self, st', fx)))"

definition WebSocketClient_on_error ::
  "on_error_cb \<Rightarrow> ws_client \<Rightarrow> session_state \<Rightarrow> string \<Rightarrow> ws_client \<times> session_state \<times> effect list" where
  "WebSocketClient_on_error on_error self st error =
     (case on_error st error of (st', fx) \<Rightarrow> (self\<lparr>is_connected := False\<rparr>, st', fx))"

definition WebSocketClient_on_close :: "ws_client \<Rightarrow> ws_client" where
  "WebSocketClient_on_close self = self\<lparr>is_connected := False\<rparr>"

definition WebSocketClient_on_open :: "ws_client \<Rightarrow> session_state \<Rightarrow> ws_client \<times> session_state" where
  "WebSocketClient_on_open self st =
     (self\<lparr>is_connected := True\<rparr>, st\<lparr>websocket_connected := True\<rparr>)"

text \<open>
  The loop of \<^verbatim>\<open>handle_websocket_message\<close> over the received items, numbered from
  \<open>idx\<close>: the lines it adds to the text, \<open>None\<close> when an item has no
  \<^verbatim>\<open>title\<close> or \<^verbatim>\<open>snippet\<close> to subscript (the loop raises).
\<close>

fun format_results :: "(pyval \<Rightarrow> string) \<Rightarrow> nat \<Rightarrow> pyval list \<Rightarrow> string option" where
  "format_results str_of idx [] = Some []"
| "format_results str_of idx (result # rest) =
     (case py_subscript result ''title'' of
        None \<Rightarrow> None
      | Some title \<Rightarrow>
          (case py_subscript result ''snippet'' of
             None \<Rightarrow> None
           | Some snippet \<Rightarrow>
               (case format_results str_of (Suc idx) rest of
                  None \<Rightarrow> None
                | Some following \<Rightarrow>
                    Some (str_nat idx @ ''. '' @ format_value str_of title @ '': ''
                          @ format_value str_of snippet @ ''\<newline>'' @ following))))"

text \<open>
  \<^verbatim>\<open>handle_websocket_message\<close>. Its body is one \<^verbatim>\<open>try\<close> whose handler only
  logs, so each raising step ends the call with the state reached so far and the
  function itself never raises. \<^verbatim>\<open>st.rerun()\<close> is its last step.
\<close>

definition handle_websocket_message :: "(pyval \<Rightarrow> string) \<Rightarrow> on_message_cb" where
  "handle_websocket_message str_of st data =
     (case py_contains data ''search_results'' of
        None \<Rightarrow> (None, st, [])
      | Some False \<Rightarrow> (None, st, [])
      | Some True \<Rightarrow>
          (case py_subscript data ''search_results'' of
             None \<Rightarrow> (None, st, [])
           | Some results \<Rightarrow>
               (case py_len results of
                  None \<Rightarrow> (None, st, [])
                | Some n \<Rightarrow>
                    (let st1 = st\<lparr>search_results := results\<rparr>
                     in if truthy results then
                          (case py_iter results of
                             None \<Rightarrow> (None, st1, [])
                           | Some items \<Rightarrow>
                               (case format_results str_of 1 items of
                                  None \<Rightarrow> (None, st1, [])
                                | Some lines \<Rightarrow>
                                    (None,
                                     add_message st1 ''assistant''
                                       (''Here are the search results:\<newline>\<newline>'' @ lines) None,
                                     [Rerun])))
                        else
                          (None,
                           add_message st1 ''assistant'' ''No search results found.'' None,
                           [Rerun])))))"

definition handle_websocket_error :: on_error_cb where
  "handle_websocket_error st error =
     (st\<lparr>websocket_connected := False\<rparr>, [StError (''WebSocket error: '' @ error)])"

section \<open>Connection controls (\<^verbatim>\<open>app/components/sidebar.py\<close>)\<close>

text \<open>
  \<^verbatim>\<open>connect_websocket\<close>. The client is built with the two handlers above; nothing in
  the guarded block raises past \<^verbatim>\<open>WebSocketClient.connect\<close>, which handles its own
  exceptions.
\<close>

definition connect_websocket ::
  "(string \<Rightarrow> launch_outcome) \<Rightarrow> session_state \<Rightarrow> session_state \<times> effect list" where
  "connect_websocket launch st =
     (if websocket_connected st then (st, [SidebarWarning ''WebSocket already connected''])
      else
        (let client = WebSocketClient_init (aws_websocket_url (config st))
         in case WebSocketClient_connect launch handle_websocket_error client st of
              (client', st', fx) \<Rightarrow>
                (st'\<lparr>websocket_client := Some client'\<rparr>,
                 fx @ [SidebarSuccess ''WebSocket connection initiated''])))"

definition disconnect_websocket :: "session_state \<Rightarrow> session_state \<times> effect list" where
  "disconnect_websocket st =
     (if \<not> websocket_connected st then (st, [SidebarWarning ''WebSocket not connected''])
      else
        (case websocket_client st of
           Some client \<Rightarrow>
             (case WebSocketClient_disconnect client of
                (client', fx) \<Rightarrow>
                  (st\<lparr>websocket_client := Some client', websocket_connected := False\<rparr>,
                   fx @ [SidebarSuccess ''WebSocket disconnected'']))
         | None \<Rightarrow> (st, [SidebarWarning ''No active WebSocket connection found''])))"

text \<open>Sample data for the evaluations below.\<close>

definition sample_config :: config where
  "sample_config =
     \<lparr>openai_api_key = ''sk-test'', openai_default_model = ''gpt-4'',
      aws_api_endpoint = ''https://api.example/search'',
      aws_websocket_url = ''wss://ws.example/live'', aws_api_key = ''k'', app_debug = False\<rparr>"

definition sample_client :: ws_client where
  "sample_client =
     \<lparr>websocket_url = ''wss://ws.example/live'', ws = Some ''wss://ws.example/live'',
      thread = True, is_connected = True\<rparr>"

definition busy_session :: session_state where
  "busy_session =
     \<lparr>messages = [\<lparr>role = ''user'', content = ''hi'', timestamp = 0, search_query = None\<rparr>],
      conversation_id = PStr ''abc'', websocket_connected = True,
      search_results = PList [PDict [(''title'', PStr ''A''), (''snippet'', PStr ''B'')]],
      openai_model = ''gpt-3.5-turbo'', config = sample_config,
      websocket_client = Some sample_client, stamp = None\<rparr>"

text \<open>
  The lines the specification expects for a batch of (title, snippet) pairs numbered
  from \<open>idx\<close>: \<^verbatim>\<open>"1. A: B"\<close>, one per line.
\<close>

fun result_lines :: "nat \<Rightarrow> (string \<times> string) list \<Rightarrow> string" where
  "result_lines idx [] = []"
| "result_lines idx ((title, snippet) # rest) =
     str_nat idx @ ''. '' @ title @ '': '' @ snippet @ ''\<newline>'' @ result_lines (Suc idx) rest"

text \<open>A received item is a record with the given title and snippet strings.\<close>

definition is_result_record :: "pyval \<Rightarrow> string \<times> string \<Rightarrow> bool" where
  "is_result_record r ts =
     (py_subscript r ''title'' = Some (PStr (fst ts))
      \<and> py_subscript r ''snippet'' = Some (PStr (snd ts)))"

text \<open>
  \<^verbatim>\<open>str()\<close> on the scalar values, for the evaluations; the text of lists and
  dictionaries is not spelled out and no evaluation below formats one.
\<close>

fun scalar_str :: "pyval \<Rightarrow> string" where
  "scalar_str PNone = ''None''"
| "scalar_str (PBool b) = (if b then ''True'' else ''False'')"
| "scalar_str (PInt i) = (if i < 0 then ''-'' @ str_nat (nat (- i)) else str_nat (nat i))"
| "scalar_str (PStr s) = s"
| "scalar_str (PList xs) = []"
| "scalar_str (PDict kvs) = []"

definition sample_service :: search_service where
  "sample_service = SearchService_init ''https://api.example/search'' (Some ''k'')"

text \<open>Three frames and their \<^verbatim>\<open>json.loads\<close> values; any other text counts as malformed here.\<close>

definition frame_one_result :: string where
  "frame_one_result =
     ''{'' @ [CHR 0x22] @ ''search_results'' @ [CHR 0x22] @ '': [{'' @ [CHR 0x22] @ ''title''
     @ [CHR 0x22] @ '': '' @ [CHR 0x22] @ ''A'' @ [CHR 0x22] @ '', '' @ [CHR 0x22] @ ''snippet''
     @ [CHR 0x22] @ '': '' @ [CHR 0x22] @ ''B'' @ [CHR 0x22] @ ''}]}''"

definition frame_no_results :: string where
  "frame_no_results = ''{'' @ [CHR 0x22] @ ''search_results'' @ [CHR 0x22] @ '': []}''"

definition frame_other :: string where
  "frame_other = ''{'' @ [CHR 0x22] @ ''other'' @ [CHR 0x22] @ '': 1}''"

definition sample_loads :: "string \<Rightarrow> loads_outcome" where
  "sample_loads frame =
     (if frame = frame_one_result then
        Parsed (PDict [(''search_results'',
                        PList [PDict [(''title'', PStr ''A''), (''snippet'', PStr ''B'')]])])
      else if frame = frame_no_results then Parsed (PDict [(''search_results'', PList [])])
      else if frame = frame_other then Parsed (PDict [(''other'', PInt 1)])
      else JSONDecodeError)"

text \<open>Endpoints: one that answers 500, one that accepts and assigns the id \<^verbatim>\<open>"abc"\<close>.\<close>

definition post_500 :: "request \<Rightarrow> http_outcome" where
  "post_500 req = Response 500 None"

definition post_accept_abc :: "request \<Rightarrow> http_outcome" where
  "post_accept_abc req = Response 202 (Some (PDict [(''conversation_id'', PStr ''abc'')]))"

definition post_unreachable :: "request \<Rightarrow> http_outcome" where
  "post_unreachable req = PostRaised ''Connection refused''"

definition init_ok :: "string \<Rightarrow> string option" where
  "init_ok key = None"

definition create_hello :: "chat_request \<Rightarrow> api_outcome" where
  "create_hello req = ApiResponse [Some '' Hello! '']"

definition create_unavailable :: "chat_request \<Rightarrow> api_outcome" where
  "create_unavailable req = ApiRaised ''upstream unavailable''"

definition create_no_choices :: "chat_request \<Rightarrow> api_outcome" where
  "create_no_choices req = ApiResponse []"

definition sample_world :: "(request \<Rightarrow> http_outcome) \<Rightarrow> (chat_request \<Rightarrow> api_outcome) \<Rightarrow> world" where
  "sample_world post create =
     \<lparr>str_lower = ascii_lower, str_strip = ascii_strip, http_post = post,
      openai_init = init_ok, chat_create = create\<rparr>"

definition always_launches :: "string \<Rightarrow> launch_outcome" where
  "always_launches url = Launched"

section \<open>Properties of the conversation store\<close>

lemma messages_add_message:
  "messages (add_message st r c q) =
     messages st @ [\<lparr>role = r, content = c,
                     timestamp = (case stamp st of None \<Rightarrow> 0 | Some t \<Rightarrow> t),
                     search_query = (if q = Some [] then None else q)\<rparr>]"
  by (cases q) (simp_all add: add_message_def)

lemma add_message_other_fields:
  "conversation_id (add_message st r c q) = conversation_id st"
  "websocket_connected (add_message st r c q) = websocket_connected st"
  "search_results (add_message st r c q) = search_results st"
  "openai_model (add_message st r c q) = openai_model st"
  "config (add_message st r c q) = config st"
  "websocket_client (add_message st r c q) = websocket_client st"
  "stamp (add_message st r c q) = stamp st"
  by (simp_all add: add_message_def Let_def)

lemma length_add_messages:
  "length (messages (add_messages st ms)) = length (messages st) + length ms"
  by (induction st ms rule: add_messages.induct) (simp_all add: messages_add_message)

text \<open>
  C7. For every number of appended messages (any roles, contents and optional search
  queries, from any starting session), \<^verbatim>\<open>clear_conversation\<close> afterwards leaves the
  transcript empty and the conversation id \<^verbatim>\<open>None\<close>; the appends themselves did
  lengthen the transcript by one entry each.
\<close>

theorem clear_after_appends:
  "messages (clear_conversation (add_messages st ms)) = []
   \<and> conversation_id (clear_conversation (add_messages st ms)) = PNone
   \<and> length (messages (add_messages st ms)) = length (messages st) + length ms"
  by (simp add: clear_conversation_def length_add_messages)

text \<open>
  C9. The record stored by \<^verbatim>\<open>add_message\<close> has a \<^verbatim>\<open>search_query\<close> field exactly
  when the argument is a non-empty string, and the field then holds that string; both
  \<^verbatim>\<open>None\<close> and the empty string give a record without the field.
\<close>

theorem add_message_search_query_field:
  "(search_query (last (messages (add_message st r c q))) \<noteq> None) = (\<exists>s. q = Some s \<and> s \<noteq> [])
   \<and> search_query (last (messages (add_message st r c q))) = (if q = Some [] then None else q)
   \<and> search_query (last (messages (add_message st r c None))) = None
   \<and> search_query (last (messages (add_message st r c (Some [])))) = None
   \<and> length (messages (add_message st r c q)) = Suc (length (messages st))"
  by (cases q) (simp_all add: messages_add_message)

text \<open>
  C10. \<^verbatim>\<open>clear_conversation\<close> sets \<^verbatim>\<open>messages\<close> to the empty list,
  \<^verbatim>\<open>conversation_id\<close> to \<^verbatim>\<open>None\<close> and \<^verbatim>\<open>search_results\<close> to the empty list,
  and every other session field (connection flag, selected model, configuration, stored
  client, timestamp slot) keeps its value.
\<close>

theorem clear_conversation_frame:
  "messages (clear_conversation st) = []
   \<and> conversation_id (clear_conversation st) = PNone
   \<and> search_results (clear_conversation st) = PList []
   \<and> websocket_connected (clear_conversation st) = websocket_connected st
   \<and> openai_model (clear_conversation st) = openai_model st
   \<and> config (clear_conversation st) = config st
   \<and> websocket_client (clear_conversation st) = websocket_client st
   \<and> stamp (clear_conversation st) = stamp st"
  by (simp add: clear_conversation_def)

text \<open>
  On a session with one message, a conversation id and a stored result, the three
  fields do change and the connection flag, model and configuration stay.
\<close>

theorem clear_conversation_frame_witness:
  "messages (clear_conversation busy_session) \<noteq> messages busy_session
   \<and> conversation_id (clear_conversation busy_session) \<noteq> conversation_id busy_session
   \<and> search_results (clear_conversation busy_session) \<noteq> search_results busy_session
   \<and> websocket_connected (clear_conversation busy_session)
   \<and> openai_model (clear_conversation busy_session) = ''gpt-3.5-turbo''
   \<and> config (clear_conversation busy_session) = sample_config"
  using clear_conversation_frame [of busy_session]
  by (simp add: busy_session_def)

section \<open>Substring test\<close>

lemma starts_with_iff: "starts_with needle hay = (\<exists>post. hay = needle @ post)"
  by (induction needle hay rule: starts_with.induct) auto

lemma str_contains_iff: "str_contains needle hay = (\<exists>pre post. hay = pre @ needle @ post)"
proof (induction hay)
  case Nil
  then show ?case by auto
next
  case (Cons h hs)
  show ?case
  proof
    assume "str_contains needle (h # hs)"
    then consider "starts_with needle (h # hs)" | "str_contains needle hs" by auto
    then show "\<exists>pre post. h # hs = pre @ needle @ post"
    proof cases
      case 1
      then obtain post where "h # hs = needle @ post" using starts_with_iff by blast
      then have "h # hs = [] @ needle @ post" by simp
      then show ?thesis by blast
    next
      case 2
      then obtain pre post where "hs = pre @ needle @ post" using Cons.IH by blast
      then have "h # hs = (h # pre) @ needle @ post" by simp
      then show ?thesis by blast
    qed
  next
    assume "\<exists>pre post. h # hs = pre @ needle @ post"
    then obtain pre post where eq: "h # hs = pre @ needle @ post" by blast
    show "str_contains needle (h # hs)"
    proof (cases pre)
      case Nil
      with eq have "starts_with needle (h # hs)" using starts_with_iff by auto
      then show ?thesis by simp
    next
      case (Cons p ps)
      with eq have "hs = ps @ needle @ post" by simp
      then have "str_contains needle hs" using Cons.IH by blast
      then show ?thesis by simp
    qed
  qed
qed

section \<open>Properties of the routing heuristic\<close>

text \<open>
  C4. \<^verbatim>\<open>should_use_semantic_search\<close> is true exactly when the lowered input
  contains, as a contiguous substring, one of the eight keywords \<^verbatim>\<open>search\<close>,
  \<^verbatim>\<open>find\<close>, \<^verbatim>\<open>look up\<close>, \<^verbatim>\<open>lookup\<close>, \<^verbatim>\<open>search for\<close>,
  \<^verbatim>\<open>find information\<close>, \<^verbatim>\<open>get information\<close>, \<^verbatim>\<open>retrieve\<close>. It reads
  nothing but its input: the lowering function stands for \<^verbatim>\<open>str.lower\<close>.
\<close>

theorem should_search_iff_keyword:
  "should_use_semantic_search lower user_input =
     (\<exists>keyword \<in> {''search'', ''find'', ''look up'', ''lookup'', ''search for'',
                     ''find information'', ''get information'', ''retrieve''}.
        \<exists>pre post. lower user_input = pre @ keyword @ post)"
  by (simp add: should_use_semantic_search_def search_keywords_def str_contains_iff)

text \<open>
  The three examples of the specification, and inputs matched through
  \<^verbatim>\<open>"retrieve"\<close> and \<^verbatim>\<open>"get information"\<close> alone.
\<close>

theorem should_search_iff_keyword_witness:
  "(\<exists>keyword \<in> {''search'', ''find'', ''look up'', ''lookup'', ''search for'',
                   ''find information'', ''get information'', ''retrieve''}.
      \<exists>pre post. ascii_lower ''SEARCH'' = pre @ keyword @ post)
   \<and> (\<exists>keyword \<in> {''search'', ''find'', ''look up'', ''lookup'', ''search for'',
                   ''find information'', ''get information'', ''retrieve''}.
      \<exists>pre post. ascii_lower ''please search for cats'' = pre @ keyword @ post)
   \<and> (\<exists>keyword \<in> {''search'', ''find'', ''look up'', ''lookup'', ''search for'',
                   ''find information'', ''get information'', ''retrieve''}.
      \<exists>pre post. ascii_lower ''Retrieve my files'' = pre @ keyword @ post)
   \<and> (\<exists>keyword \<in> {''search'', ''find'', ''look up'', ''lookup'', ''search for'',
                   ''find information'', ''get information'', ''retrieve''}.
      \<exists>pre post. ascii_lower ''Get Information on cats'' = pre @ keyword @ post)
   \<and> \<not> (\<exists>keyword \<in> {''search'', ''find'', ''look up'', ''lookup'', ''search for'',
                   ''find information'', ''get information'', ''retrieve''}.
      \<exists>pre post. ascii_lower ''hello there'' = pre @ keyword @ post)"
proof -
  have a: "should_use_semantic_search ascii_lower ''SEARCH''" by code_simp
  have b: "should_use_semantic_search ascii_lower ''please search for cats''" by code_simp
  have c: "should_use_semantic_search ascii_lower ''Retrieve my files''" by code_simp
  have d: "should_use_semantic_search ascii_lower ''Get Information on cats''" by code_simp
  have e: "\<not> should_use_semantic_search ascii_lower ''hello there''" by code_simp
  note a' = should_search_iff_keyword [of ascii_lower "''SEARCH''", THEN iffD1, OF a]
  note b' = should_search_iff_keyword [of ascii_lower "''please search for cats''", THEN iffD1, OF b]
  note c' = should_search_iff_keyword [of ascii_lower "''Retrieve my files''", THEN iffD1, OF c]
  note d' = should_search_iff_keyword [of ascii_lower "''Get Information on cats''", THEN iffD1, OF d]
  note e' = e [unfolded should_search_iff_keyword [of ascii_lower "''hello there''"]]
  show ?thesis
    by (intro conjI a' b' c' d' e')
qed

text \<open>Inputs for the remaining keywords; two spaces inside \<^verbatim>\<open>"look  up"\<close> match none.\<close>

lemma routing_examples:
  "should_use_semantic_search ascii_lower ''a find b''"
  "should_use_semantic_search ascii_lower ''Look Up x''"
  "should_use_semantic_search ascii_lower ''LOOKUP x''"
  "should_use_semantic_search ascii_lower ''retrieve''"
  "should_use_semantic_search ascii_lower ''get information''"
  "\<not> should_use_semantic_search ascii_lower ''look  up''"
  by code_simp+

section \<open>Properties of the search dispatcher\<close>

lemma perform_search_known_id:
  "truthy (conversation_id st) \<Longrightarrow>
     snd (perform_search post self st query) = (st, search_request self st query)"
  by (simp add: perform_search_def Let_def split: http_outcome.splits)

lemma perform_searches_known_id:
  "truthy (conversation_id st) \<Longrightarrow>
     perform_searches self st calls =
       (map (\<lambda>call. search_request self st (snd call)) calls, st)"
proof (induction calls)
  case Nil
  then show ?case by simp
next
  case (Cons call calls)
  obtain post query where call: "call = (post, query)" by (cases call)
  obtain accepted where "perform_search post self st query = (accepted, st, search_request self st query)"
    using perform_search_known_id [OF Cons.prems, of post self query]
    by (cases "perform_search post self st query") simp
  with Cons call show ?case by simp
qed

text \<open>
  C6. With no stored conversation id, a dispatch carries \<^verbatim>\<open>"new_conversation"\<close>;
  when the endpoint answers 202 with the body \<^verbatim>\<open>{"conversation_id": "abc"}\<close> the
  stored id becomes \<^verbatim>\<open>"abc"\<close>, and every later dispatch on that session, whatever
  the endpoint then answers, carries \<^verbatim>\<open>"abc"\<close>, sends its own query and leaves
  the stored id as it is.
\<close>

theorem conversation_id_adopted:
  assumes "conversation_id st = PNone"
    and "post (search_request self st query) =
           Response 202 (Some (PDict [(''conversation_id'', PStr ''abc'')]))"
  shows "req_conversation_id (search_request self st query) = PStr ''new_conversation''
       \<and> perform_search post self st query =
           (True, st\<lparr>conversation_id := PStr ''abc''\<rparr>, search_request self st query)
       \<and> map req_conversation_id
            (fst (perform_searches self (st\<lparr>conversation_id := PStr ''abc''\<rparr>) calls))
           = replicate (length calls) (PStr ''abc'')
       \<and> map req_query
            (fst (perform_searches self (st\<lparr>conversation_id := PStr ''abc''\<rparr>) calls))
           = map snd calls
       \<and> snd (perform_searches self (st\<lparr>conversation_id := PStr ''abc''\<rparr>) calls)
           = st\<lparr>conversation_id := PStr ''abc''\<rparr>"
proof -
  have known: "truthy (conversation_id (st\<lparr>conversation_id := PStr ''abc''\<rparr>))" by simp
  have first: "req_conversation_id (search_request self st query) = PStr ''new_conversation''"
    using assms(1) by (simp add: search_request_def)
  have adopt: "perform_search post self st query =
           (True, st\<lparr>conversation_id := PStr ''abc''\<rparr>, search_request self st query)"
    using assms by (simp add: perform_search_def Let_def)
  have later: "perform_searches self (st\<lparr>conversation_id := PStr ''abc''\<rparr>) calls =
      (map (\<lambda>call. search_request self (st\<lparr>conversation_id := PStr ''abc''\<rparr>) (snd call)) calls,
       st\<lparr>conversation_id := PStr ''abc''\<rparr>)"
    by (rule perform_searches_known_id [OF known])
  have ids: "map req_conversation_id
      (map (\<lambda>call. search_request self (st\<lparr>conversation_id := PStr ''abc''\<rparr>) (snd call)) calls)
      = replicate (length calls) (PStr ''abc'')"
    by (induction calls) (simp_all add: search_request_def)
  have qs: "map req_query
      (map (\<lambda>call. search_request self (st\<lparr>conversation_id := PStr ''abc''\<rparr>) (snd call)) calls)
      = map snd calls"
    by (induction calls) (simp_all add: search_request_def)
  show ?thesis using first adopt later ids qs by simp
qed

theorem conversation_id_adopted_witness:
  "req_conversation_id (search_request sample_service (initialize_session_state sample_config) ''find cats'')
     = PStr ''new_conversation''
   \<and> conversation_id (fst (snd (perform_search post_accept_abc sample_service
        (initialize_session_state sample_config) ''find cats''))) = PStr ''abc''
   \<and> map req_conversation_id (fst (perform_searches sample_service
        ((initialize_session_state sample_config)\<lparr>conversation_id := PStr ''abc''\<rparr>)
        [(post_500, ''find dogs''), (post_accept_abc, ''find birds'')]))
     = [PStr ''abc'', PStr ''abc'']"
proof -
  have a: "conversation_id (initialize_session_state sample_config) = PNone"
    by (simp add: initialize_session_state_def)
  have b: "post_accept_abc (search_request sample_service (initialize_session_state sample_config) ''find cats'')
      = Response 202 (Some (PDict [(''conversation_id'', PStr ''abc'')]))"
    by (simp add: post_accept_abc_def)
  show ?thesis
    using conversation_id_adopted [where post = post_accept_abc and self = sample_service
        and st = "initialize_session_state sample_config" and query = "''find cats''"
        and calls = "[(post_500, ''find dogs''), (post_accept_abc, ''find birds'')]", OF a b]
    by simp
qed

lemma perform_search_failure:
  "dispatch_fails (post (search_request self st query)) \<Longrightarrow>
     perform_search post self st query = (False, st, search_request self st query)"
  by (cases "post (search_request self st query)") (simp_all add: perform_search_def Let_def)

lemma perform_search_accepted_iff:
  "fst (perform_search post self st query) = (\<not> dispatch_fails (post (search_request self st query)))"
  by (cases "post (search_request self st query)")
     (simp_all add: perform_search_def Let_def split: option.splits)

text \<open>
  C3, as the code has it. A dispatch that fails (the call raised, or the status is not
  202) returns \<^verbatim>\<open>False\<close> and leaves the session state, and so the stored
  conversation id, as it was. The caller \<^verbatim>\<open>process_user_input\<close> does not look at the
  boolean: for an input routed to search whose dispatch fails it returns the fixed text
  \<^verbatim>\<open>"Searching for relevant information..."\<close>, and the session gains the user's
  message and nothing else.
\<close>

theorem failed_dispatch_is_silent:
  "(dispatch_fails (post (search_request self st query)) \<longrightarrow>
      perform_search post self st query = (False, st, search_request self st query)
      \<and> conversation_id (fst (snd (perform_search post self st query))) = conversation_id st)
   \<and> (should_use_semantic_search (str_lower w) user_input
        \<and> dispatch_fails (http_post w (search_request service
              (add_message st ''user'' user_input None) user_input)) \<longrightarrow>
      process_user_input w service st user_input =
        (''Searching for relevant information...'', add_message st ''user'' user_input None))"
  by (simp add: perform_search_failure process_user_input_def Let_def)

text \<open>A status 500 and a refused connection, on a session that has a conversation id.\<close>

theorem failed_dispatch_is_silent_witness:
  "dispatch_fails (post_500 (search_request sample_service busy_session ''find cats''))
   \<and> dispatch_fails (post_unreachable (search_request sample_service busy_session ''find cats''))
   \<and> perform_search post_500 sample_service busy_session ''find cats''
       = (False, busy_session, search_request sample_service busy_session ''find cats'')
   \<and> should_use_semantic_search (str_lower (sample_world post_unreachable create_hello)) ''find cats''
   \<and> process_user_input (sample_world post_unreachable create_hello) sample_service busy_session ''find cats''
       = (''Searching for relevant information...'', add_message busy_session ''user'' ''find cats'' None)"
proof -
  have a: "dispatch_fails (post_500 (search_request sample_service busy_session ''find cats''))"
    by (simp add: post_500_def)
  have b: "dispatch_fails (post_unreachable (search_request sample_service busy_session ''find cats''))"
    by (simp add: post_unreachable_def)
  have c: "should_use_semantic_search (str_lower (sample_world post_unreachable create_hello)) ''find cats''"
    unfolding sample_world_def by code_simp
  have d: "dispatch_fails (http_post (sample_world post_unreachable create_hello)
              (search_request sample_service (add_message busy_session ''user'' ''find cats'' None) ''find cats''))"
    by (simp add: sample_world_def post_unreachable_def)
  show ?thesis
    using a b c d
      failed_dispatch_is_silent [where post = post_500 and self = sample_service
        and st = busy_session and query = "''find cats''"
        and w = "sample_world post_unreachable create_hello" and service = sample_service
        and user_input = "''find cats''"]
    by simp
qed

text \<open>
  C3 as stated asks for a failure message the user can see. With the endpoint answering
  500 the dispatch returns \<^verbatim>\<open>False\<close>, yet the reply and the session state are those
  of an accepted dispatch, the reply is the progress text, and the chat shows the two
  user messages only.
\<close>

theorem failed_dispatch_shows_no_failure:
  "\<not> fst (perform_search post_500 sample_service
            (add_message busy_session ''user'' ''find cats'' None) ''find cats'')
   \<and> process_user_input (sample_world post_500 create_hello) sample_service busy_session ''find cats''
       = process_user_input (sample_world post_accept_abc create_hello) sample_service busy_session ''find cats''
   \<and> fst (process_user_input (sample_world post_500 create_hello) sample_service busy_session ''find cats'')
       = ''Searching for relevant information...''
   \<and> display_chat_messages (messages (snd (process_user_input (sample_world post_500 create_hello)
         sample_service busy_session ''find cats'')))
       = [(''user'', ''hi''), (''user'', ''find cats'')]"
proof -
  have s: "should_use_semantic_search ascii_lower ''find cats''" by code_simp
  have k: "truthy (conversation_id (add_message busy_session ''user'' ''find cats'' None))"
    by (simp add: add_message_def busy_session_def)
  have f: "perform_search post_500 sample_service (add_message busy_session ''user'' ''find cats'' None) ''find cats''
      = (False, add_message busy_session ''user'' ''find cats'' None,
         search_request sample_service (add_message busy_session ''user'' ''find cats'' None) ''find cats'')"
    by (rule perform_search_failure) (simp add: post_500_def)
  have g: "perform_search post_accept_abc sample_service (add_message busy_session ''user'' ''find cats'' None) ''find cats''
      = (True, add_message busy_session ''user'' ''find cats'' None,
         search_request sample_service (add_message busy_session ''user'' ''find cats'' None) ''find cats'')"
    using k by (simp add: perform_search_def Let_def post_accept_abc_def)
  have m: "messages (add_message busy_session ''user'' ''find cats'' None)
      = [\<lparr>role = ''user'', content = ''hi'', timestamp = 0, search_query = None\<rparr>,
         \<lparr>role = ''user'', content = ''find cats'', timestamp = 0, search_query = None\<rparr>]"
    by (simp add: add_message_def busy_session_def)
  show ?thesis
    using s f g m by (simp add: process_user_input_def sample_world_def Let_def)
qed

section \<open>Properties of input processing\<close>

lemma generate_response_failure:
  "generate_response strip create msgs model = Inl e \<longleftrightarrow>
     (create \<lparr>chat_model = model, chat_messages = msgs\<rparr> = ApiRaised e
      \<or> (create \<lparr>chat_model = model, chat_messages = msgs\<rparr> = ApiResponse [] \<and> e = ''list index out of range'')
      \<or> (\<exists>rest. create \<lparr>chat_model = model, chat_messages = msgs\<rparr> = ApiResponse (None # rest)
           \<and> e = none_has_no_strip))"
  by (auto simp: generate_response_def split: api_outcome.splits list.splits option.splits)

lemma process_user_input_completion_failure:
  assumes "\<not> should_use_semantic_search (str_lower w) user_input"
    and "openai_init w (openai_api_key (config st)) = None"
    and "generate_response (str_strip w) (chat_create w)
           (get_messages_for_openai (add_message st ''user'' user_input None)) (openai_model st) = Inl e"
  shows "process_user_input w service st user_input =
           (''Error: '' @ e, add_message st ''user'' user_input None)"
  using assms by (simp add: process_user_input_def Let_def add_message_other_fields)

lemma display_chat_messages_append:
  "display_chat_messages (ms @ ms') = display_chat_messages ms @ display_chat_messages ms'"
  by (induction ms) simp_all

text \<open>
  C5 on two failing completion calls: one that raises, one that returns no choice. The
  call does not raise to the session and the reply is the text \<^verbatim>\<open>"Error: ..."\<close>;
  the session gains the user's message only, so the chat drawn after the rerun shows no
  assistant text for the failure.
\<close>

theorem completion_failure_reply_not_shown:
  "process_user_input (sample_world post_500 create_unavailable) sample_service
       (initialize_session_state sample_config) ''hello there''
     = (''Error: upstream unavailable'',
        add_message (initialize_session_state sample_config) ''user'' ''hello there'' None)
   \<and> fst (process_user_input (sample_world post_500 create_no_choices) sample_service
       (initialize_session_state sample_config) ''hello there'')
     = ''Error: list index out of range''
   \<and> display_chat_messages (messages (fst (render_chat_interface
         (sample_world post_500 create_unavailable)
         (initialize_session_state sample_config) (Some ''hello there''))))
     = [(''user'', ''hello there'')]
   \<and> snd (render_chat_interface (sample_world post_500 create_unavailable)
         (initialize_session_state sample_config) (Some ''hello there'')) = [Rerun]"
proof -
  let ?st = "initialize_session_state sample_config"
  have r: "\<not> should_use_semantic_search ascii_lower ''hello there''" by code_simp
  have m: "messages (add_message ?st ''user'' ''hello there'' None)
      = [\<lparr>role = ''user'', content = ''hello there'', timestamp = 0, search_query = None\<rparr>]"
    by (simp add: add_message_def initialize_session_state_def)
  have p: "process_user_input (sample_world post_500 create_unavailable) service ?st ''hello there''
      = (''Error: upstream unavailable'', add_message ?st ''user'' ''hello there'' None)" for service
    using r by (simp add: process_user_input_def sample_world_def Let_def init_ok_def
        generate_response_def create_unavailable_def)
  have q: "process_user_input (sample_world post_500 create_no_choices) sample_service ?st ''hello there''
      = (''Error: list index out of range'', add_message ?st ''user'' ''hello there'' None)"
    using r by (simp add: process_user_input_def sample_world_def Let_def init_ok_def
        generate_response_def create_no_choices_def)
  show ?thesis
    using p q m by (simp add: render_chat_interface_def)
qed

text \<open>The successful path, by contrast, appends the reply as an assistant message.\<close>

lemma completion_success_is_shown:
  "display_chat_messages (messages (fst (render_chat_interface
         (sample_world post_500 create_hello)
         (initialize_session_state sample_config) (Some ''hello there''))))
     = [(''user'', ''hello there''), (''assistant'', ''Hello!'')]"
proof -
  let ?st = "initialize_session_state sample_config"
  have r: "\<not> should_use_semantic_search ascii_lower ''hello there''" by code_simp
  have s: "ascii_strip '' Hello! '' = ''Hello!''" by code_simp
  have p: "process_user_input (sample_world post_500 create_hello) service ?st ''hello there''
      = (''Hello!'', add_message (add_message ?st ''user'' ''hello there'' None) ''assistant'' ''Hello!'' None)" for service
    using r s by (simp add: process_user_input_def sample_world_def Let_def init_ok_def
        generate_response_def create_hello_def)
  show ?thesis
    using p by (simp add: render_chat_interface_def add_message_def initialize_session_state_def)
qed

section \<open>Properties of the realtime channel\<close>

lemma malformed_frame_general:
  "loads message = JSONDecodeError \<Longrightarrow>
     WebSocketClient_on_message loads on_message handle_websocket_error self st message
       = (self, st\<lparr>websocket_connected := False\<rparr>,
          [StError ''WebSocket error: Invalid message format''])"
  by (simp add: WebSocketClient_on_message_def handle_websocket_error_def)

text \<open>
  C1 on the frame \<^verbatim>\<open>not json\<close>, received while connected. The registered error
  handler is called with \<^verbatim>\<open>"Invalid message format"\<close> and the client object is
  left as it was (\<^verbatim>\<open>is_connected\<close> stays true, the socket is not closed), but the
  handler sets the session's \<^verbatim>\<open>websocket_connected\<close> flag to false. From that state
  the connect control starts a second listener and the disconnect control refuses to act.
\<close>

theorem malformed_frame_marks_session_disconnected:
  "sample_loads ''not json'' = JSONDecodeError
   \<and> websocket_connected busy_session
   \<and> websocket_client busy_session = Some sample_client
   \<and> is_connected sample_client
   \<and> WebSocketClient_on_message sample_loads (handle_websocket_message scalar_str)
        handle_websocket_error sample_client busy_session ''not json''
       = (sample_client, busy_session\<lparr>websocket_connected := False\<rparr>,
          [StError ''WebSocket error: Invalid message format''])
   \<and> \<not> websocket_connected (fst (snd (WebSocketClient_on_message sample_loads
        (handle_websocket_message scalar_str) handle_websocket_error sample_client
        busy_session ''not json'')))
   \<and> snd (connect_websocket always_launches (busy_session\<lparr>websocket_connected := False\<rparr>))
       = [ThreadStarted ''wss://ws.example/live'', SidebarSuccess ''WebSocket connection initiated'']
   \<and> disconnect_websocket (busy_session\<lparr>websocket_connected := False\<rparr>)
       = (busy_session\<lparr>websocket_connected := False\<rparr>, [SidebarWarning ''WebSocket not connected''])"
proof -
  have l: "sample_loads ''not json'' = JSONDecodeError"
    by (simp add: sample_loads_def frame_one_result_def frame_no_results_def frame_other_def)
  have c: "snd (connect_websocket always_launches (busy_session\<lparr>websocket_connected := False\<rparr>))
       = [ThreadStarted ''wss://ws.example/live'', SidebarSuccess ''WebSocket connection initiated'']"
    by (simp add: connect_websocket_def WebSocketClient_connect_def WebSocketClient_init_def
        always_launches_def busy_session_def sample_config_def)
  have d: "disconnect_websocket (busy_session\<lparr>websocket_connected := False\<rparr>)
       = (busy_session\<lparr>websocket_connected := False\<rparr>, [SidebarWarning ''WebSocket not connected''])"
    by (simp add: disconnect_websocket_def)
  show ?thesis
    using l c d malformed_frame_general [where loads = sample_loads and message = "''not json''", OF l]
    by (simp add: busy_session_def sample_client_def)
qed

text \<open>
  C8. While the session is marked connected, \<^verbatim>\<open>connect_websocket\<close> leaves the session
  state (the stored client included) as it is, reports the warning
  \<^verbatim>\<open>"WebSocket already connected"\<close>, starts no listener thread, and doing it again
  gives the same result.
\<close>

theorem connect_when_connected:
  "websocket_connected st \<Longrightarrow>
     connect_websocket launch st = (st, [SidebarWarning ''WebSocket already connected''])
     \<and> connect_websocket launch' (fst (connect_websocket launch st)) = connect_websocket launch st
     \<and> websocket_client (fst (connect_websocket launch st)) = websocket_client st
     \<and> ThreadStarted url \<notin> set (snd (connect_websocket launch st))"
  by (simp add: connect_websocket_def)

theorem connect_when_connected_witness:
  "websocket_connected busy_session
   \<and> connect_websocket always_launches busy_session
       = (busy_session, [SidebarWarning ''WebSocket already connected''])
   \<and> websocket_client (fst (connect_websocket always_launches busy_session)) = Some sample_client"
proof -
  have a: "websocket_connected busy_session" by (simp add: busy_session_def)
  show ?thesis
    using a connect_when_connected [OF a, of always_launches]
    by (simp add: busy_session_def)
qed

text \<open>From a session that is not marked connected the same control does start a listener.\<close>

lemma connect_when_disconnected:
  "\<not> websocket_connected st \<Longrightarrow> launch (aws_websocket_url (config st)) = Launched \<Longrightarrow>
     connect_websocket launch st =
       (st\<lparr>websocket_client := Some \<lparr>websocket_url = aws_websocket_url (config st),
              ws = Some (aws_websocket_url (config st)), thread = True, is_connected = False\<rparr>\<rparr>,
        [ThreadStarted (aws_websocket_url (config st)),
         SidebarSuccess ''WebSocket connection initiated''])"
  by (simp add: connect_websocket_def WebSocketClient_connect_def WebSocketClient_init_def)

lemma format_results_records:
  "list_all2 is_result_record rs items \<Longrightarrow>
     format_results str_of idx rs = Some (result_lines idx items)"
proof (induction rs items arbitrary: idx rule: list_all2_induct)
  case Nil
  then show ?case by simp
next
  case (Cons r rs ts items)
  obtain title snippet where ts: "ts = (title, snippet)" by (cases ts)
  from Cons.hyps(1) ts have "py_subscript r ''title'' = Some (PStr title)"
    and "py_subscript r ''snippet'' = Some (PStr snippet)"
    by (simp_all add: is_result_record_def)
  with Cons.IH ts show ?case by simp
qed

lemma py_subscript_Some:
  "py_subscript data key = Some v \<Longrightarrow> py_contains data key = Some True"
  by (cases data) simp_all

lemma handle_without_key:
  "py_subscript data ''search_results'' = None \<Longrightarrow>
     handle_websocket_message str_of st data = (None, st, [])"
  by (cases data) (simp_all add: handle_websocket_message_def split: option.splits bool.splits)

lemma handle_with_records:
  assumes "py_subscript data ''search_results'' = Some (PList rs)"
    and "list_all2 is_result_record rs items"
  shows "handle_websocket_message str_of st data =
           (None,
            add_message (st\<lparr>search_results := PList rs\<rparr>) ''assistant''
              (if items = [] then ''No search results found.''
               else ''Here are the search results:\<newline>\<newline>'' @ result_lines 1 items) None,
            [Rerun])"
proof -
  have len: "rs = [] \<longleftrightarrow> items = []"
    using assms(2) by (auto dest: list_all2_lengthD)
  show ?thesis
    using assms len
    by (simp add: handle_websocket_message_def py_subscript_Some format_results_records Let_def)
qed

text \<open>
  C2. For a parsed frame given to \<^verbatim>\<open>handle_websocket_message\<close>: when its
  \<^verbatim>\<open>"search_results"\<close> is a non-empty list of records with string titles and
  snippets, exactly one assistant message is appended, whose text is the heading followed
  by one line \<^verbatim>\<open>"i. title: snippet"\<close> per record, numbered from 1; when the list is
  empty, exactly one assistant message \<^verbatim>\<open>"No search results found."\<close> is appended;
  when the frame has no \<^verbatim>\<open>"search_results"\<close> key the session is unchanged, and the
  client's \<^verbatim>\<open>_on_message\<close> then returns without calling the error handler.
\<close>

theorem search_results_frame_handling:
  "(py_subscript data ''search_results'' = Some (PList rs)
      \<and> list_all2 is_result_record rs items \<and> items \<noteq> [] \<longrightarrow>
        messages (fst (snd (handle_websocket_message str_of st data)))
          = messages st @ [\<lparr>role = ''assistant'',
               content = ''Here are the search results:\<newline>\<newline>'' @ result_lines 1 items,
               timestamp = (case stamp st of None \<Rightarrow> 0 | Some t \<Rightarrow> t), search_query = None\<rparr>]
        \<and> search_results (fst (snd (handle_websocket_message str_of st data))) = PList rs
        \<and> snd (snd (handle_websocket_message str_of st data)) = [Rerun])
   \<and> (py_subscript data ''search_results'' = Some (PList []) \<longrightarrow>
        messages (fst (snd (handle_websocket_message str_of st data)))
          = messages st @ [\<lparr>role = ''assistant'', content = ''No search results found.'',
               timestamp = (case stamp st of None \<Rightarrow> 0 | Some t \<Rightarrow> t), search_query = None\<rparr>]
        \<and> snd (snd (handle_websocket_message str_of st data)) = [Rerun])
   \<and> (py_subscript data ''search_results'' = None \<longrightarrow>
        handle_websocket_message str_of st data = (None, st, [])
        \<and> (loads frame = Parsed data \<longrightarrow>
             WebSocketClient_on_message loads (handle_websocket_message str_of) on_error self st frame
               = (self, st, [])))"
proof -
  have a: "messages (fst (snd (handle_websocket_message str_of st data)))
          = messages st @ [\<lparr>role = ''assistant'',
               content = ''Here are the search results:\<newline>\<newline>'' @ result_lines 1 items,
               timestamp = (case stamp st of None \<Rightarrow> 0 | Some t \<Rightarrow> t), search_query = None\<rparr>]
        \<and> search_results (fst (snd (handle_websocket_message str_of st data))) = PList rs
        \<and> snd (snd (handle_websocket_message str_of st data)) = [Rerun]"
    if "py_subscript data ''search_results'' = Some (PList rs)"
      and "list_all2 is_result_record rs items" and "items \<noteq> []"
    using that
    by (simp add: handle_with_records messages_add_message add_message_other_fields)
  have b: "messages (fst (snd (handle_websocket_message str_of st data)))
          = messages st @ [\<lparr>role = ''assistant'', content = ''No search results found.'',
               timestamp = (case stamp st of None \<Rightarrow> 0 | Some t \<Rightarrow> t), search_query = None\<rparr>]
        \<and> snd (snd (handle_websocket_message str_of st data)) = [Rerun]"
    if h: "py_subscript data ''search_results'' = Some (PList [])"
  proof -
    have "list_all2 is_result_record [] []" by simp
    from handle_with_records [OF h this] show ?thesis
      by (simp add: messages_add_message)
  qed
  have c: "handle_websocket_message str_of st data = (None, st, [])
        \<and> (loads frame = Parsed data \<longrightarrow>
             WebSocketClient_on_message loads (handle_websocket_message str_of) on_error self st frame
               = (self, st, []))"
    if "py_subscript data ''search_results'' = None"
    using that by (simp add: handle_without_key WebSocketClient_on_message_def)
  show ?thesis using a b c by blast
qed

text \<open>The three frames of the specification.\<close>

theorem search_results_frame_handling_witness:
  "messages (fst (snd (handle_websocket_message scalar_str (initialize_session_state sample_config)
       (PDict [(''search_results'', PList [PDict [(''title'', PStr ''A''), (''snippet'', PStr ''B'')]])]))))
     = [\<lparr>role = ''assistant'', content = ''Here are the search results:\<newline>\<newline>1. A: B\<newline>'',
         timestamp = 0, search_query = None\<rparr>]
   \<and> messages (fst (snd (handle_websocket_message scalar_str (initialize_session_state sample_config)
       (PDict [(''search_results'', PList [])]))))
     = [\<lparr>role = ''assistant'', content = ''No search results found.'',
         timestamp = 0, search_query = None\<rparr>]
   \<and> sample_loads frame_other = Parsed (PDict [(''other'', PInt 1)])
   \<and> WebSocketClient_on_message sample_loads (handle_websocket_message scalar_str)
        handle_websocket_error sample_client (initialize_session_state sample_config) frame_other
     = (sample_client, initialize_session_state sample_config, [])"
proof -
  let ?st = "initialize_session_state sample_config"
  let ?one = "PDict [(''search_results'', PList [PDict [(''title'', PStr ''A''), (''snippet'', PStr ''B'')]])]"
  have a1: "py_subscript ?one ''search_results''
      = Some (PList [PDict [(''title'', PStr ''A''), (''snippet'', PStr ''B'')]])" by simp
  have a2: "list_all2 is_result_record [PDict [(''title'', PStr ''A''), (''snippet'', PStr ''B'')]] [(''A'', ''B'')]"
    by (simp add: is_result_record_def)
  have a3: "[(''A'', ''B'')] \<noteq> []" by simp
  have b1: "py_subscript (PDict [(''search_results'', PList [])]) ''search_results'' = Some (PList [])"
    by simp
  have c1: "py_subscript (PDict [(''other'', PInt 1)]) ''search_results'' = None" by simp
  have c2: "sample_loads frame_other = Parsed (PDict [(''other'', PInt 1)])"
    by (simp add: sample_loads_def frame_one_result_def frame_no_results_def frame_other_def)
  have lines: "result_lines 1 [(''A'', ''B'')] = ''1. A: B\<newline>''"
    by (simp add: str_nat.simps)
  have st: "messages ?st = []" "stamp ?st = None"
    by (simp_all add: initialize_session_state_def)
  note t1 = search_results_frame_handling [where data = ?one and str_of = scalar_str and st = ?st
      and rs = "[PDict [(''title'', PStr ''A''), (''snippet'', PStr ''B'')]]" and items = "[(''A'', ''B'')]"]
  note t2 = search_results_frame_handling [where data = "PDict [(''search_results'', PList [])]"
      and str_of = scalar_str and st = ?st]
  note t3 = search_results_frame_handling [where data = "PDict [(''other'', PInt 1)]"
      and str_of = scalar_str and st = ?st and loads = sample_loads and frame = frame_other
      and on_error = handle_websocket_error and self = sample_client]
  have r1: "messages (fst (snd (handle_websocket_message scalar_str ?st ?one)))
     = [\<lparr>role = ''assistant'', content = ''Here are the search results:\<newline>\<newline>1. A: B\<newline>'',
         timestamp = 0, search_query = None\<rparr>]"
    using t1 a1 a2 a3 lines st by simp
  have r2: "messages (fst (snd (handle_websocket_message scalar_str ?st (PDict [(''search_results'', PList [])]))))
     = [\<lparr>role = ''assistant'', content = ''No search results found.'',
         timestamp = 0, search_query = None\<rparr>]"
    using t2 b1 st by simp
  have r3: "WebSocketClient_on_message sample_loads (handle_websocket_message scalar_str)
        handle_websocket_error sample_client ?st frame_other = (sample_client, ?st, [])"
    using t3 c1 c2 by simp
  show ?thesis using r1 r2 r3 c2 by simp
qed

end
